theory Spec2Isabelle
  imports Complex_Main "HOL-Library.AList" "HOL-Library.Multiset" "HOL-Library.Char_ord"
    "HOL-Library.List_Lexorder" "HOL-Library.Product_Lexorder"
begin

section \<open>Values, dictionaries and the in-memory dataset\<close>

text \<open>
  Scalars that occur in a record of \<^verbatim>\<open>PSCounts.py\<close>: Python \<^verbatim>\<open>None\<close>, the float
  \<^verbatim>\<open>nan\<close> that pandas reads from a blank cell, a number, a string. Numbers are exact
  rationals: the counts are integers, and IEEE rounding and the infinities are not
  represented.
\<close>

datatype pyval = PNone | NaN | Num rat | Str string

text \<open>
  A Python \<^verbatim>\<open>dict\<close> is an association list in insertion order. \<^verbatim>\<open>d[k] = v\<close> is
  \<^const>\<open>AList.update\<close>: an existing key keeps its position, a new key goes to the end.
  \<^verbatim>\<open>d.get(k)\<close> is \<open>py_get\<close>, with \<^verbatim>\<open>None\<close> for a missing key.
\<close>

type_synonym pyrec = "(string \<times> pyval) list"

type_synonym dataset = "(string \<times> (pyval \<times> pyrec) list) list"

definition py_get :: "pyrec \<Rightarrow> string \<Rightarrow> pyval" where
  "py_get d k = (case map_of d k of None \<Rightarrow> PNone | Some v \<Rightarrow> v)"

datatype py_error = KeyError | TypeError | ValueError | ZeroDivisionError

definition QUARTERS :: "string list" where
  "QUARTERS = [''SoS'', ''Q1'', ''Q2'', ''Q3'', ''EoS'']"

section \<open>Delta analysis: \<^verbatim>\<open>compute_deltas_between\<close>\<close>

text \<open>
  The numbers the delta loop computes with: the \<^verbatim>\<open>int\<close> literal \<^verbatim>\<open>0\<close> of the two
  \<^verbatim>\<open>else 0\<close> branches, a finite float, or the float \<^verbatim>\<open>nan\<close>.
\<close>

datatype pynum = Int0 | Float rat | FloatNaN

fun is_zero :: "pynum \<Rightarrow> bool" where
  "is_zero Int0 = True"
| "is_zero (Float r) = (r = 0)"
| "is_zero FloatNaN = False"

fun num_sub :: "pynum \<Rightarrow> pynum \<Rightarrow> pynum" where
  "num_sub Int0 Int0 = Int0"
| "num_sub Int0 (Float b) = Float (0 - b)"
| "num_sub (Float a) Int0 = Float (a - 0)"
| "num_sub (Float a) (Float b) = Float (a - b)"
| "num_sub _ _ = FloatNaN"

text \<open>Python's \<^verbatim>\<open>/\<close> raises \<^verbatim>\<open>ZeroDivisionError\<close> on a zero divisor, also for floats.\<close>

fun num_div :: "pynum \<Rightarrow> pynum \<Rightarrow> py_error + pynum" where
  "num_div a Int0 = Inl ZeroDivisionError"
| "num_div a (Float b) =
     (if b = 0 then Inl ZeroDivisionError
      else Inr (case a of Int0 \<Rightarrow> Float (0 / b) | Float x \<Rightarrow> Float (x / b) | FloatNaN \<Rightarrow> FloatNaN))"
| "num_div a FloatNaN = Inr FloatNaN"

fun num_times100 :: "pynum \<Rightarrow> pynum" where
  "num_times100 Int0 = Int0"
| "num_times100 (Float a) = Float (a * 100)"
| "num_times100 FloatNaN = FloatNaN"

text \<open>
  What the interpreter and its library supply and the source leaves open:
  \<^item> \<open>float_of_str\<close>: \<^verbatim>\<open>float(s)\<close> on a string, \<open>None\<close> where it raises \<^verbatim>\<open>ValueError\<close>;
  \<^item> \<open>set_order\<close>: the order in which a \<^verbatim>\<open>set\<close> holding the given elements is iterated
    (it depends on the hash values, which CPython salts per process for strings);
  \<^item> \<open>fmt_line\<close>: the rendering of the f-string of one summary line.
\<close>

record interp =
  float_of_str :: "string \<Rightarrow> pynum option"
  set_order :: "pyval list \<Rightarrow> pyval list"
  fmt_line :: "pyval \<Rightarrow> string \<Rightarrow> pynum \<Rightarrow> pynum \<Rightarrow> pynum \<Rightarrow> pynum \<Rightarrow> string"

text \<open>
  \<^verbatim>\<open>float(d.get(key, 0)) if d.get(key) is not None else 0\<close>; \<open>None\<close> is the exception that
  the bare \<^verbatim>\<open>except\<close> turns into \<^verbatim>\<open>continue\<close>.
\<close>

definition coerce :: "interp \<Rightarrow> pyrec \<Rightarrow> string \<Rightarrow> pynum option" where
  "coerce E d key =
     (case py_get d key of
        PNone \<Rightarrow> Some Int0
      | NaN \<Rightarrow> Some FloatNaN
      | Num r \<Rightarrow> Some (Float r)
      | Str s \<Rightarrow> float_of_str E s)"

record delta_row =
  Role :: pyval
  Metric :: string
  Old_Value :: pynum
  New_Value :: pynum
  Difference :: pynum
  Percent_Change :: pynum

text \<open>The body of the inner loop for one key: no row when a coercion fails.\<close>

definition delta_entry ::
  "interp \<Rightarrow> pyval \<Rightarrow> pyrec \<Rightarrow> pyrec \<Rightarrow> string \<Rightarrow> py_error + delta_row option" where
  "delta_entry E role data1 data2 key =
     (case coerce E data1 key of
        None \<Rightarrow> Inr None
      | Some old_val \<Rightarrow>
          (case coerce E data2 key of
             None \<Rightarrow> Inr None
           | Some new_val \<Rightarrow>
               (let diff = num_sub new_val old_val in
                case (if \<not> is_zero old_val
                      then (case num_div diff old_val of
                              Inl e \<Rightarrow> Inl e
                            | Inr q \<Rightarrow> Inr (num_times100 q))
                      else Inr Int0) of
                  Inl e \<Rightarrow> Inl e
                | Inr pct \<Rightarrow>
                    Inr (Some \<lparr>Role = role, Metric = key, Old_Value = old_val,
                               New_Value = new_val, Difference = diff,
                               Percent_Change = pct\<rparr>))))"

text \<open>\<^verbatim>\<open>for key in data1\<close>: the rows appended for one role, or the exception raised.\<close>

fun metric_loop ::
  "interp \<Rightarrow> pyval \<Rightarrow> pyrec \<Rightarrow> pyrec \<Rightarrow> string list \<Rightarrow> py_error + delta_row list" where
  "metric_loop E role data1 data2 [] = Inr []"
| "metric_loop E role data1 data2 (key # keys) =
     (case delta_entry E role data1 data2 key of
        Inl e \<Rightarrow> Inl e
      | Inr r \<Rightarrow>
          (case metric_loop E role data1 data2 keys of
             Inl e \<Rightarrow> Inl e
           | Inr rs \<Rightarrow> Inr (case r of None \<Rightarrow> rs | Some x \<Rightarrow> x # rs)))"

text \<open>\<^verbatim>\<open>for role in common_roles\<close>, with \<^verbatim>\<open>data1 = roles1[role]\<close>, \<^verbatim>\<open>data2 = roles2[role]\<close>.\<close>

fun role_loop ::
  "interp \<Rightarrow> (pyval \<times> pyrec) list \<Rightarrow> (pyval \<times> pyrec) list \<Rightarrow> pyval list
     \<Rightarrow> py_error + delta_row list" where
  "role_loop E roles1 roles2 [] = Inr []"
| "role_loop E roles1 roles2 (role # rest) =
     (case (map_of roles1 role, map_of roles2 role) of
        (Some data1, Some data2) \<Rightarrow>
          (case metric_loop E role data1 data2 (map fst data1) of
             Inl e \<Rightarrow> Inl e
           | Inr rs \<Rightarrow>
               (case role_loop E roles1 roles2 rest of
                  Inl e \<Rightarrow> Inl e
                | Inr rss \<Rightarrow> Inr (rs @ rss)))
      | _ \<Rightarrow> Inl KeyError)"

definition common_roles :: "interp \<Rightarrow> (pyval \<times> pyrec) list \<Rightarrow> (pyval \<times> pyrec) list \<Rightarrow> pyval list" where
  "common_roles E roles1 roles2 =
     set_order E (filter (\<lambda>r. r \<in> set (map fst roles2)) (map fst roles1))"

definition summary_line :: "interp \<Rightarrow> delta_row \<Rightarrow> string" where
  "summary_line E r =
     fmt_line E (Role r) (Metric r) (Old_Value r) (New_Value r) (Difference r) (Percent_Change r)"

text \<open>\<^verbatim>\<open>"\n".join(lines)\<close>\<close>

fun join_lines :: "string list \<Rightarrow> string" where
  "join_lines [] = []"
| "join_lines [l] = l"
| "join_lines (l # ls) = l @ [CHR 0x0A] @ join_lines ls"

text \<open>The result pair is (summary, rows of the DataFrame); the empty DataFrame has no rows.\<close>

definition compute_deltas_between ::
  "interp \<Rightarrow> dataset \<Rightarrow> string \<Rightarrow> string \<Rightarrow> py_error + (string \<times> delta_row list)" where
  "compute_deltas_between E shift_data q1 q2 =
     (case (map_of shift_data q1, map_of shift_data q2) of
        (Some roles1, Some roles2) \<Rightarrow>
          (case role_loop E roles1 roles2 (common_roles E roles1 roles2) of
             Inl e \<Rightarrow> Inl e
           | Inr rows \<Rightarrow>
               Inr (if rows \<noteq> [] then join_lines (map (summary_line E) rows)
                    else ''No common numeric data found.'',
                    rows))
      | _ \<Rightarrow> Inr (''One or both quarters are not available.'', []))"

section \<open>Data frames and the workbook\<close>

text \<open>
  A pandas \<^verbatim>\<open>DataFrame\<close>: the column labels in order, and one dictionary per row. A
  cell that a row does not hold reads as \<^verbatim>\<open>nan\<close>.
\<close>

datatype frame = Frame (cols: "string list") (recs: "pyrec list")

definition cell :: "pyrec \<Rightarrow> string \<Rightarrow> pyval" where
  "cell r c = (case map_of r c of None \<Rightarrow> NaN | Some v \<Rightarrow> v)"

text \<open>The distinct elements of a list, each at its first occurrence.\<close>

definition unique_first :: "'a list \<Rightarrow> 'a list" where
  "unique_first xs = rev (remdups (rev xs))"

text \<open>\<^verbatim>\<open>pd.DataFrame(records)\<close>: the columns are the keys in order of first appearance.\<close>

definition DataFrame :: "pyrec list \<Rightarrow> frame" where
  "DataFrame records = Frame (unique_first (concat (map (map fst) records))) records"

text \<open>\<^verbatim>\<open>df.drop(columns=[c])\<close>\<close>

definition drop_column :: "string \<Rightarrow> frame \<Rightarrow> frame" where
  "drop_column c df = Frame (removeAll c (cols df)) (map (AList.delete c) (recs df))"

text \<open>\<^verbatim>\<open>row.to_dict()\<close> for a row of \<open>df\<close>: one entry per column.\<close>

definition to_dict :: "frame \<Rightarrow> pyrec \<Rightarrow> pyrec" where
  "to_dict df r = map (\<lambda>c. (c, cell r c)) (cols df)"

text \<open>
  A sheet is represented by the table that \<^verbatim>\<open>pd.read_excel\<close> gives back for it:
  \<^verbatim>\<open>None\<close>, \<^verbatim>\<open>nan\<close> and the empty string are all a blank cell, which reads as
  \<^verbatim>\<open>nan\<close>; trailing rows of blank cells are not read; a sheet without a header row is
  the empty frame. Other spellings that \<^verbatim>\<open>read_excel\<close> takes for missing values, and
  the renaming of duplicate or blank headers, are not represented.
\<close>

fun excel_cell :: "pyval \<Rightarrow> pyval" where
  "excel_cell PNone = NaN"
| "excel_cell NaN = NaN"
| "excel_cell (Num r) = Num r"
| "excel_cell (Str s) = (if s = [] then NaN else Str s)"

definition blank_row :: "pyrec \<Rightarrow> bool" where
  "blank_row r = list_all (\<lambda>kv. snd kv = NaN) r"

definition trim_trailing :: "pyrec list \<Rightarrow> pyrec list" where
  "trim_trailing rs = rev (dropWhile blank_row (rev rs))"

definition as_sheet :: "frame \<Rightarrow> frame" where
  "as_sheet df =
     (if cols df = [] then Frame [] []
      else Frame (cols df)
             (trim_trailing (map (\<lambda>r. map (\<lambda>c. (c, excel_cell (cell r c))) (cols df)) (recs df))))"

text \<open>
  The workbook file: sheet names in order with their tables. Writing through
  \<^verbatim>\<open>pd.ExcelWriter(file_path, mode='a', if_sheet_exists='replace')\<close> replaces the
  sheet of that name in place, or adds it at the end.
\<close>

type_synonym workbook = "(string \<times> frame) list"

definition to_excel :: "workbook \<Rightarrow> string \<Rightarrow> frame \<Rightarrow> workbook" where
  "to_excel wb sheet_name df = AList.update sheet_name (as_sheet df) wb"

text \<open>\<^verbatim>\<open>pd.read_excel(file_path, sheet_name=..)\<close> raises \<^verbatim>\<open>ValueError\<close> for a missing sheet.\<close>

definition read_excel :: "workbook \<Rightarrow> string \<Rightarrow> py_error + frame" where
  "read_excel wb sheet_name =
     (case map_of wb sheet_name of None \<Rightarrow> Inl ValueError | Some sh \<Rightarrow> Inr (as_sheet sh))"

definition create_new_workbook :: workbook where
  "create_new_workbook =
     map (\<lambda>sheet. (sheet, Frame [] []))
       (''SoS'' # [''Q1'', ''Q2'', ''Q3'', ''EoS'', ''Wash'', ''Shift Changes''])"

section \<open>Persistent store and import: \<^verbatim>\<open>save_data_to_json\<close>, \<^verbatim>\<open>load_data_from_json\<close>, \<^verbatim>\<open>import_files\<close>\<close>

text \<open>
  The state of the program: the global \<^verbatim>\<open>shift_data\<close>, the content of
  \<^verbatim>\<open>shift_data.json\<close> (\<open>None\<close> while the file does not exist) and the workbook at the
  path of the current shift date and type (\<open>None\<close> while that file does not exist).
  Failing file operations are not represented.
\<close>

record app_state =
  shift_data :: dataset
  json_file :: "dataset option"
  book :: "workbook option"

definition save_data_to_json :: "dataset \<Rightarrow> app_state \<Rightarrow> app_state" where
  "save_data_to_json data st = st\<lparr>json_file := Some data\<rparr>"

definition load_data_from_json :: "app_state \<Rightarrow> app_state" where
  "load_data_from_json st =
     (case json_file st of None \<Rightarrow> st | Some data \<Rightarrow> st\<lparr>shift_data := data\<rparr>)"

text \<open>The row loop of \<^verbatim>\<open>import_files\<close>: \<^verbatim>\<open>quarter_dict[role] = row.to_dict()\<close>.\<close>

definition quarter_dict :: "frame \<Rightarrow> (pyval \<times> pyrec) list" where
  "quarter_dict df =
     foldl (\<lambda>d row. AList.update (cell row ''Role'') (to_dict df row) d) [] (recs df)"

text \<open>\<^verbatim>\<open>not df.empty and "Role" in df.columns\<close>\<close>

definition importable :: "frame \<Rightarrow> bool" where
  "importable df = (\<not> (cols df = [] \<or> recs df = []) \<and> ''Role'' \<in> set (cols df))"

text \<open>\<^verbatim>\<open>for q in QUARTERS\<close> over the workbook of the latest file.\<close>

fun import_quarters :: "workbook \<Rightarrow> string list \<Rightarrow> dataset \<Rightarrow> dataset" where
  "import_quarters wb [] sd = sd"
| "import_quarters wb (q # qs) sd =
     import_quarters wb qs
       (case read_excel wb q of
          Inl e \<Rightarrow> sd
        | Inr df \<Rightarrow> if importable df then AList.update q (quarter_dict df) sd else sd)"

text \<open>
  A selected file: its folder, its modification time and its workbook.
  \<^verbatim>\<open>max(files, key=os.path.getmtime)\<close> is the first file with the largest time.
\<close>

record xlsx_file =
  dirname :: string
  getmtime :: rat
  content :: workbook

fun latest_of :: "xlsx_file \<Rightarrow> xlsx_file list \<Rightarrow> xlsx_file" where
  "latest_of best [] = best"
| "latest_of best (f # fs) = latest_of (if getmtime best < getmtime f then f else best) fs"

definition import_files :: "xlsx_file list \<Rightarrow> app_state \<Rightarrow> app_state" where
  "import_files files st =
     (case files of
        [] \<Rightarrow> st
      | f # fs \<Rightarrow>
          if card (set (map dirname files)) \<noteq> 1 then st
          else (let latest_file = latest_of f fs;
                    sd = import_quarters (content latest_file) QUARTERS (shift_data st)
                in save_data_to_json sd (st\<lparr>shift_data := sd\<rparr>)))"

section \<open>Sheet updates: \<^verbatim>\<open>save_quarter_to_excel\<close>, \<^verbatim>\<open>aggregate_data\<close>\<close>

definition save_quarter_to_excel :: "string \<Rightarrow> pyrec list \<Rightarrow> workbook \<Rightarrow> workbook" where
  "save_quarter_to_excel quarter records wb =
     (let df = DataFrame records;
          df = (if quarter = ''EoS'' \<and> ''Quarter'' \<in> set (cols df)
                then drop_column ''Quarter'' df else df)
      in to_excel wb quarter df)"

text \<open>
  \<^verbatim>\<open>pd.concat(dataframes, ignore_index=True)\<close>: the union of the columns in order of
  first appearance, the rows of each frame (with that frame's columns) one after the other.
\<close>

definition concat_frames :: "frame list \<Rightarrow> frame" where
  "concat_frames dfs =
     Frame (unique_first (concat (map cols dfs)))
           (concat (map (\<lambda>df. map (to_dict df) (recs df)) dfs))"

text \<open>
  \<^verbatim>\<open>pd.api.types.is_numeric_dtype(x)\<close> for a column of a frame read from sheets: the
  column has a numeric dtype unless a string occurs in it.
\<close>

definition is_numeric_dtype :: "frame \<Rightarrow> string \<Rightarrow> bool" where
  "is_numeric_dtype df c =
     list_all (\<lambda>r. case cell r c of Str s \<Rightarrow> False | _ \<Rightarrow> True) (recs df)"

text \<open>\<^verbatim>\<open>x.sum()\<close> skips missing values.\<close>

fun num_or_0 :: "pyval \<Rightarrow> rat" where
  "num_or_0 (Num r) = r"
| "num_or_0 _ = 0"

text \<open>The lambda given to \<^verbatim>\<open>agg\<close>, on column \<open>c\<close> of the rows \<open>grp\<close> of one group.\<close>

definition agg_column :: "frame \<Rightarrow> pyrec list \<Rightarrow> string \<Rightarrow> pyval" where
  "agg_column df grp c =
     (if is_numeric_dtype df c then Num (sum_list (map (\<lambda>r. num_or_0 (cell r c)) grp))
      else (case grp of [] \<Rightarrow> NaN | r # _ \<Rightarrow> cell r c))"

text \<open>
  The order pandas gives to values of a column: numbers before strings (by code point)
  before missing values.
\<close>

fun order_key :: "pyval \<Rightarrow> nat \<times> rat \<times> string" where
  "order_key (Num r) = (0, r, [])"
| "order_key (Str s) = (1, 0, s)"
| "order_key _ = (2, 0, [])"

fun is_missing :: "pyval \<Rightarrow> bool" where
  "is_missing PNone = True"
| "is_missing NaN = True"
| "is_missing _ = False"

text \<open>The group keys of \<^verbatim>\<open>groupby("Role")\<close>: the distinct values present, sorted.\<close>

definition group_keys :: "frame \<Rightarrow> pyval list" where
  "group_keys df =
     sort_key order_key
       (unique_first (filter (\<lambda>v. \<not> is_missing v) (map (\<lambda>r. cell r ''Role'') (recs df))))"

text \<open>
  \<^verbatim>\<open>df.groupby("Role", as_index=False).agg(lambda x: ...)\<close>: \<^verbatim>\<open>KeyError\<close> without a
  \<^verbatim>\<open>Role\<close> column; otherwise one row per key, the key first, then every other
  column reduced over the rows of the group.
\<close>

definition groupby_agg :: "frame \<Rightarrow> py_error + frame" where
  "groupby_agg df =
     (if ''Role'' \<notin> set (cols df) then Inl KeyError
      else (let others = removeAll ''Role'' (cols df)
            in Inr (Frame (''Role'' # others)
                 (map (\<lambda>k. (let grp = filter (\<lambda>r. cell r ''Role'' = k) (recs df)
                             in (''Role'', k) # map (\<lambda>c. (c, agg_column df grp c)) others))
                      (group_keys df)))))"

text \<open>The sheets among SoS, Q1, Q2, Q3 that the workbook has, read in that order.\<close>

fun read_sheets :: "workbook \<Rightarrow> string list \<Rightarrow> frame list" where
  "read_sheets wb [] = []"
| "read_sheets wb (sheet_name # rest) =
     (case read_excel wb sheet_name of
        Inl e \<Rightarrow> read_sheets wb rest
      | Inr df \<Rightarrow> df # read_sheets wb rest)"

text \<open>
  In the branch for the other quarters every exception is caught and reported in a
  message box; the workbook is then left as it is.
\<close>

definition aggregate_data :: "workbook \<Rightarrow> string \<Rightarrow> py_error + workbook" where
  "aggregate_data wb current_quarter =
     (if current_quarter = ''EoS'' then
        (case read_excel wb ''EoS'' of
           Inl e \<Rightarrow> Inl e
         | Inr df \<Rightarrow>
             Inr (to_excel wb ''EoS''
                    (if ''Quarter'' \<in> set (cols df) then drop_column ''Quarter'' df else df)))
      else
        (let dataframes = read_sheets wb [''SoS'', ''Q1'', ''Q2'', ''Q3'']
         in if dataframes \<noteq> [] then
              (case groupby_agg (concat_frames dataframes) of
                 Inl e \<Rightarrow> Inr wb
               | Inr agg_df \<Rightarrow> Inr (to_excel wb ''EoS'' agg_df))
            else Inr wb))"

section \<open>The change summary: \<^verbatim>\<open>update_shift_changes_summary\<close>\<close>

text \<open>\<^verbatim>\<open>row = {"Quarter": quarter}; row.update(data)\<close>\<close>

definition summary_row :: "string \<Rightarrow> pyrec \<Rightarrow> pyrec" where
  "summary_row quarter data =
     foldl (\<lambda>row kv. AList.update (fst kv) (snd kv) row) [(''Quarter'', Str quarter)] data"

definition summary_rows :: "dataset \<Rightarrow> pyrec list" where
  "summary_rows sd =
     concat (map (\<lambda>(quarter, roles). map (\<lambda>(role, data). summary_row quarter data) roles) sd)"

definition quarter_order :: "(string \<times> nat) list" where
  "quarter_order = [(''SoS'', 1), (''Q1'', 2), (''Q2'', 3), (''Q3'', 4), (''EoS'', 5)]"

text \<open>\<^verbatim>\<open>quarter_order.get(x, 99)\<close>\<close>

definition quarter_rank :: "pyval \<Rightarrow> nat" where
  "quarter_rank x =
     (case x of
        Str s \<Rightarrow> (case map_of quarter_order s of None \<Rightarrow> 99 | Some n \<Rightarrow> n)
      | _ \<Rightarrow> 99)"

text \<open>\<^verbatim>\<open>df[c] = df[..].apply(f)\<close>: the column is overwritten, or added as the last one.\<close>

definition assign_column :: "string \<Rightarrow> (pyrec \<Rightarrow> pyval) \<Rightarrow> frame \<Rightarrow> frame" where
  "assign_column c f df =
     Frame (if c \<in> set (cols df) then cols df else cols df @ [c])
           (map (\<lambda>r. AList.update c (f r) r) (recs df))"

text \<open>
  \<^verbatim>\<open>df.sort_values(by=["QuarterOrder", "Role"])\<close>: \<^verbatim>\<open>KeyError\<close> when a key column is
  missing; the sort on several keys is stable.
\<close>

definition sort_values :: "frame \<Rightarrow> py_error + frame" where
  "sort_values df =
     (if ''QuarterOrder'' \<notin> set (cols df) \<or> ''Role'' \<notin> set (cols df) then Inl KeyError
      else Inr (Frame (cols df)
                  (sort_key (\<lambda>r. (order_key (cell r ''QuarterOrder''), order_key (cell r ''Role'')))
                     (recs df))))"

text \<open>The frame that is written to the sheet "Shift Changes".\<close>

definition shift_changes_table :: "dataset \<Rightarrow> py_error + frame" where
  "shift_changes_table sd =
     (let df = DataFrame (summary_rows sd)
      in if ''Quarter'' \<in> set (cols df) then
           (case sort_values
                   (assign_column ''QuarterOrder''
                      (\<lambda>r. Num (of_nat (quarter_rank (cell r ''Quarter'')))) df) of
              Inl e \<Rightarrow> Inl e
            | Inr sorted_df \<Rightarrow> Inr (drop_column ''QuarterOrder'' sorted_df))
         else Inr df)"

definition update_shift_changes_summary :: "dataset \<Rightarrow> workbook \<Rightarrow> py_error + workbook" where
  "update_shift_changes_summary sd wb =
     (case shift_changes_table sd of
        Inl e \<Rightarrow> Inl e
      | Inr df \<Rightarrow> Inr (to_excel wb ''Shift Changes'' df))"

section \<open>Form input and submission: \<^verbatim>\<open>collect_data\<close>, \<^verbatim>\<open>submit_data\<close>\<close>

definition RSP_FLOORS :: "string list" where
  "RSP_FLOORS = [''A2'', ''A3'', ''A4'', ''B2'', ''B3'', ''B4'']"

definition RSP_METRICS :: "string list" where
  "RSP_METRICS = [''Headcount'', ''Piles'', ''Damages'', ''LAF'', ''ISS'', ''NONCON'']"

definition DOCK_METRICS :: "string list" where
  "DOCK_METRICS =
     [''Headcount'', ''Piles'', ''Liquid Damages'', ''Dry Damages'', ''LAF'', ''ISS'', ''NC'']"

definition DAMAGELAND_METRICS :: "string list" where
  "DAMAGELAND_METRICS = [''Headcount'', ''Backlog'', ''Damage Stow'', ''Received'', ''Deletes'']"

definition OTHER_ROLES :: "string list" where
  "OTHER_ROLES = [''Customer Returns'', ''Inbound Support Services (ICQA)'', ''IOL'', ''GK'']"

text \<open>
  The text of the entry fields (the Tk variables), as \<^verbatim>\<open>.get()\<close> returns it. Strings
  are ASCII here: \<^verbatim>\<open>strip\<close> removes ASCII white space and \<^verbatim>\<open>isdigit\<close> accepts the
  digits 0 to 9.
\<close>

record form =
  selected_quarter :: string
  rsp_entries :: "string \<Rightarrow> string \<Rightarrow> string"
  dock_entries :: "string \<Rightarrow> string"
  dmg_entries :: "string \<Rightarrow> string"
  other_entries :: "string \<Rightarrow> string"
  rsp_headcount_total_var :: string
  non_rsp_headcount_total_var :: string

definition is_space :: "char \<Rightarrow> bool" where
  "is_space c = (c \<in> set [CHR '' '', CHR 0x09, CHR 0x0A, CHR 0x0B, CHR 0x0C, CHR 0x0D])"

definition strip :: "string \<Rightarrow> string" where
  "strip s = rev (dropWhile is_space (rev (dropWhile is_space s)))"

definition isdigit :: "string \<Rightarrow> bool" where
  "isdigit s = (s \<noteq> [] \<and> list_all (\<lambda>c. c \<in> set ''0123456789'') s)"

definition int_of_digits :: "string \<Rightarrow> int" where
  "int_of_digits s = foldl (\<lambda>n c. 10 * n + (of_char c - 48)) 0 s"

text \<open>
  \<^verbatim>\<open>int(s)\<close> on a string: white space around an optionally signed decimal numeral;
  \<open>None\<close> is \<^verbatim>\<open>ValueError\<close>. Underscores between digits are not represented.
\<close>

definition py_int :: "string \<Rightarrow> int option" where
  "py_int s =
     (case strip s of
        [] \<Rightarrow> None
      | c # cs \<Rightarrow>
          if c = CHR ''-'' then (if isdigit cs then Some (- int_of_digits cs) else None)
          else if c = CHR ''+'' then (if isdigit cs then Some (int_of_digits cs) else None)
          else if isdigit (c # cs) then Some (int_of_digits (c # cs)) else None)"

definition validate_numeric :: "string \<Rightarrow> bool" where
  "validate_numeric v = (strip v = [] \<or> isdigit (strip v))"

text \<open>\<^verbatim>\<open>int(val) if (val and validate_numeric(val)) else None\<close> on the stripped text.\<close>

definition entry_value :: "string \<Rightarrow> pyval" where
  "entry_value text =
     (let val = strip text
      in if val \<noteq> [] \<and> validate_numeric val then Num (of_int (int_of_digits val)) else PNone)"

text \<open>\<^verbatim>\<open>try: int(v) except: 0\<close>\<close>

definition int_or_0 :: "string \<Rightarrow> int" where
  "int_or_0 v = (case py_int v of None \<Rightarrow> 0 | Some n \<Rightarrow> n)"

definition collect_data :: "form \<Rightarrow> pyrec list" where
  "collect_data F =
     (let current_quarter = selected_quarter F;
          total_piles =
            sum_list (map (\<lambda>floor. int_of_digits (strip (rsp_entries F floor ''Piles'')))
                        (filter (\<lambda>floor. isdigit (strip (rsp_entries F floor ''Piles''))) RSP_FLOORS))
      in map (\<lambda>floor.
                [(''Quarter'', Str current_quarter), (''Role'', Str (''RSP ('' @ floor @ '')'')),
                 (''Floor'', Str floor)]
                @ map (\<lambda>metric. (metric, entry_value (rsp_entries F floor metric))) RSP_METRICS)
             RSP_FLOORS
         @ [[(''Quarter'', Str current_quarter), (''Role'', Str ''RSP (Total)''),
             (''Floor'', Str []), (''Piles'', Num (of_int total_piles))],
            [(''Quarter'', Str current_quarter), (''Role'', Str ''RSP (Headcount Total)''),
             (''Floor'', Str []),
             (''Headcount'', Num (of_int (int_or_0 (rsp_headcount_total_var F))))],
            [(''Quarter'', Str current_quarter), (''Role'', Str ''Dock''), (''Floor'', Str [])]
            @ map (\<lambda>metric. (metric, entry_value (dock_entries F metric))) DOCK_METRICS,
            [(''Quarter'', Str current_quarter), (''Role'', Str ''Damageland''),
             (''Floor'', Str [])]
            @ map (\<lambda>metric. (metric, entry_value (dmg_entries F metric))) DAMAGELAND_METRICS]
         @ map (\<lambda>role.
                  [(''Quarter'', Str current_quarter), (''Role'', Str role), (''Floor'', Str []),
                   (''Headcount'', entry_value (other_entries F role))])
               OTHER_ROLES
         @ [[(''Quarter'', Str current_quarter), (''Role'', Str ''Non-RSP (Headcount Total)''),
             (''Floor'', Str []),
             (''Headcount'', Num (of_int (int_or_0 (non_rsp_headcount_total_var F))))]])"

text \<open>
  \<^verbatim>\<open>submit_data\<close>, on the workbook of the entered shift date and type. The comparison
  with the old sheet only prints a warning (\<^verbatim>\<open>compute_differences\<close> is not defined) and
  \<^verbatim>\<open>adjust_excel_columns\<close> only sets column widths; neither changes a table. The result
  is the state reached and the exception that ended the call, if any.
\<close>

definition submit_data :: "form \<Rightarrow> app_state \<Rightarrow> app_state \<times> py_error option" where
  "submit_data F st =
     (let records = collect_data F;
          wb0 = (case book st of None \<Rightarrow> create_new_workbook | Some wb \<Rightarrow> wb);
          wb1 = save_quarter_to_excel (selected_quarter F) records wb0
      in case aggregate_data wb1 (selected_quarter F) of
           Inl e \<Rightarrow> (st\<lparr>book := Some wb1\<rparr>, Some e)
         | Inr wb2 \<Rightarrow>
             (case update_shift_changes_summary (shift_data st) wb2 of
                Inl e \<Rightarrow> (st\<lparr>book := Some wb2\<rparr>, Some e)
              | Inr wb3 \<Rightarrow> (load_data_from_json (st\<lparr>book := Some wb3\<rparr>), None)))"

section \<open>Statements of the specification and sample inputs\<close>

text \<open>The rational value of a number of the delta loop; \<^verbatim>\<open>nan\<close> has none.\<close>

fun num_val :: "pynum \<Rightarrow> rat option" where
  "num_val Int0 = Some 0"
| "num_val (Float r) = Some r"
| "num_val FloatNaN = None"

text \<open>
  A row of the difference table as the specification describes it: Difference is
  new - old; Percent Change is (new - old) / old * 100 when old is not 0, and the integer
  0 when old is 0. A \<^verbatim>\<open>nan\<close> operand gives \<^verbatim>\<open>nan\<close>.
\<close>

definition delta_ok :: "delta_row \<Rightarrow> bool" where
  "delta_ok r =
     ((case (num_val (Old_Value r), num_val (New_Value r)) of
         (Some old, Some new) \<Rightarrow> num_val (Difference r) = Some (new - old)
       | _ \<Rightarrow> Difference r = FloatNaN) \<and>
      (case num_val (Old_Value r) of
         Some old \<Rightarrow>
           (if old = 0 then Percent_Change r = Int0
            else (case num_val (New_Value r) of
                    Some new \<Rightarrow> Percent_Change r = Float ((new - old) / old * 100)
                  | None \<Rightarrow> Percent_Change r = FloatNaN))
       | None \<Rightarrow> Percent_Change r = FloatNaN))"

text \<open>An iteration order of a set visits every element once.\<close>

definition set_order_ok :: "interp \<Rightarrow> bool" where
  "set_order_ok E = (\<forall>xs. mset (set_order E xs) = mset xs)"

text \<open>The rows that one role contributes to the difference table.\<close>

definition rows_for ::
  "interp \<Rightarrow> (pyval \<times> pyrec) list \<Rightarrow> (pyval \<times> pyrec) list \<Rightarrow> pyval \<Rightarrow> delta_row list" where
  "rows_for E roles1 roles2 role =
     (case (map_of roles1 role, map_of roles2 role) of
        (Some data1, Some data2) \<Rightarrow>
          (case metric_loop E role data1 data2 (map fst data1) of Inl e \<Rightarrow> [] | Inr rs \<Rightarrow> rs)
      | _ \<Rightarrow> [])"

text \<open>
  A sample interpreter: no string of the samples below is a numeral, a summary line
  shows the metric only, and the order of set iteration is the argument.
\<close>

definition sample_interp :: "(pyval list \<Rightarrow> pyval list) \<Rightarrow> interp" where
  "sample_interp ord =
     \<lparr>float_of_str = (\<lambda>s. None), set_order = ord,
      fmt_line = (\<lambda>role key old_val new_val diff pct. key)\<rparr>"

definition sample_dataset :: dataset where
  "sample_dataset =
     [(''SoS'', [(Str ''Dock'', [(''Role'', Str ''Dock''), (''Headcount'', Num 10)]),
                 (Str ''GK'', [(''Role'', Str ''GK''), (''Headcount'', Num 0)])]),
      (''Q1'', [(Str ''Dock'', [(''Role'', Str ''Dock''), (''Headcount'', Num 12)]),
                (Str ''GK'', [(''Role'', Str ''GK''), (''Headcount'', Num 5)])])]"

text \<open>
  A workbook that holds an EoS sheet with a Quarter column and none of the sheets SoS, Q1,
  Q2, Q3; and the same workbook after the EoS sheet was rewritten.
\<close>

definition sample_eos_book :: workbook where
  "sample_eos_book =
     [(''EoS'', Frame [''Quarter'', ''Role'', ''Headcount'']
                  [[(''Quarter'', Str ''EoS''), (''Role'', Str ''Dock''), (''Headcount'', Num 5)],
                   [(''Quarter'', Str ''EoS''), (''Role'', Str ''GK''), (''Headcount'', PNone)]]),
      (''Wash'', Frame [] [])]"

definition sample_eos_rewritten :: workbook where
  "sample_eos_rewritten =
     [(''EoS'', Frame [''Role'', ''Headcount'']
                  [[(''Role'', Str ''Dock''), (''Headcount'', Num 5)],
                   [(''Role'', Str ''GK''), (''Headcount'', NaN)]]),
      (''Wash'', Frame [] [])]"

text \<open>The rows of a frame whose Role cell is \<open>role\<close>, in row order.\<close>

definition rows_of_role :: "frame \<Rightarrow> pyval \<Rightarrow> pyrec list" where
  "rows_of_role df role = filter (\<lambda>r. cell r ''Role'' = role) (recs df)"

text \<open>
  Merging at role granularity would keep what was stored: every role stored under a
  quarter of \<open>sd\<close> is still stored under that quarter of \<open>sd'\<close>.
\<close>

definition keeps_roles :: "dataset \<Rightarrow> dataset \<Rightarrow> bool" where
  "keeps_roles sd sd' =
     list_all (\<lambda>(q, roles).
        case map_of sd' q of
          None \<Rightarrow> False
        | Some roles' \<Rightarrow> list_all (\<lambda>(role, data). role \<in> fst ` set roles') roles) sd"

text \<open>
  A program state that holds the sample dataset, and one selected file whose Q1 sheet has
  a row for Dock only and whose Q2 sheet is empty.
\<close>

definition sample_state :: app_state where
  "sample_state = \<lparr>shift_data = sample_dataset, json_file = Some sample_dataset, book = None\<rparr>"

definition sample_import_book :: workbook where
  "sample_import_book =
     [(''Q1'', Frame [''Role'', ''Headcount'']
                 [[(''Role'', Str ''Dock''), (''Headcount'', Num 7)]]),
      (''Q2'', Frame [] [])]"

definition sample_file :: xlsx_file where
  "sample_file =
     \<lparr>dirname = ''exports/2025-03-01'', getmtime = 1, content = sample_import_book\<rparr>"

definition sample_imported :: dataset where
  "sample_imported =
     [(''SoS'', [(Str ''Dock'', [(''Role'', Str ''Dock''), (''Headcount'', Num 10)]),
                 (Str ''GK'', [(''Role'', Str ''GK''), (''Headcount'', Num 0)])]),
      (''Q1'', [(Str ''Dock'', [(''Role'', Str ''Dock''), (''Headcount'', Num 7)])])]"

text \<open>
  The order of the rows of the change summary: the rank of the Quarter cell first, then
  the Role cell (strings compare by code point).
\<close>

definition summary_key :: "pyrec \<Rightarrow> nat \<times> nat \<times> rat \<times> string" where
  "summary_key r = (quarter_rank (cell r ''Quarter''), order_key (cell r ''Role''))"

text \<open>
  A dataset whose quarters and roles are stored out of order, with a quarter name that
  has no rank and a record that carries a field named like the helper column.
\<close>

definition sample_log_dataset :: dataset where
  "sample_log_dataset =
     [(''Q1'', [(Str ''GK'', [(''Role'', Str ''GK''), (''Headcount'', Num 2)]),
                (Str ''Dock'', [(''Role'', Str ''Dock''), (''Headcount'', Num 12)])]),
      (''Night'', [(Str ''Dock'', [(''Role'', Str ''Dock''), (''Headcount'', Num 1)])]),
      (''SoS'', [(Str ''Dock'', [(''Role'', Str ''Dock''), (''QuarterOrder'', Num 7)])])]"

definition sample_log_table :: frame where
  "sample_log_table =
     Frame [''Quarter'', ''Role'', ''Headcount'']
       [[(''Quarter'', Str ''SoS''), (''Role'', Str ''Dock'')],
        [(''Quarter'', Str ''Q1''), (''Role'', Str ''Dock''), (''Headcount'', Num 12)],
        [(''Quarter'', Str ''Q1''), (''Role'', Str ''GK''), (''Headcount'', Num 2)],
        [(''Quarter'', Str ''Night''), (''Role'', Str ''Dock''), (''Headcount'', Num 1)]]"




text \<open>The row that \<open>groupby_agg\<close> builds for the key \<open>k\<close>.\<close>

definition group_row :: "frame \<Rightarrow> pyval \<Rightarrow> pyrec" where
  "group_row df k =
     (''Role'', k) # map (\<lambda>c. (c, agg_column df (rows_of_role df k) c)) (removeAll ''Role'' (cols df))"



text \<open>
  A filled form for the quarter Q1: 7 piles on floor A2 and a Dock headcount of 5.
\<close>

definition sample_form :: form where
  "sample_form =
     \<lparr>selected_quarter = ''Q1'',
      rsp_entries = (\<lambda>floor metric. if floor = ''A2'' \<and> metric = ''Piles'' then '' 7 '' else []),
      dock_entries = (\<lambda>metric. if metric = ''Headcount'' then ''5'' else []),
      dmg_entries = (\<lambda>metric. []),
      other_entries = (\<lambda>role. []),
      rsp_headcount_total_var = ''0'',
      non_rsp_headcount_total_var = ''5''\<rparr>"

text \<open>Whether the named sheet of the state's workbook has the column \<open>c\<close>.\<close>

definition sheet_has_column :: "app_state \<Rightarrow> string \<Rightarrow> string \<Rightarrow> bool" where
  "sheet_has_column st sheet_name c =
     (case book st of
        None \<Rightarrow> False
      | Some wb \<Rightarrow> (case map_of wb sheet_name of None \<Rightarrow> False | Some sh \<Rightarrow> c \<in> set (cols sh)))"

text \<open>
  The values a form submits for a field of a role, and the value the dataset stores for
  a field of a role under a quarter.
\<close>

definition submitted_values :: "form \<Rightarrow> string \<Rightarrow> string \<Rightarrow> pyval list" where
  "submitted_values F role field =
     map (\<lambda>r. py_get r field) (filter (\<lambda>r. py_get r ''Role'' = Str role) (collect_data F))"

definition stored_value :: "dataset \<Rightarrow> string \<Rightarrow> pyval \<Rightarrow> string \<Rightarrow> pyval option" where
  "stored_value sd q role field =
     (case map_of sd q of
        None \<Rightarrow> None
      | Some roles \<Rightarrow> (case map_of roles role of None \<Rightarrow> None | Some d \<Rightarrow> map_of d field))"

text \<open>The change summary of the sample dataset.\<close>

definition sample_summary_table :: frame where
  "sample_summary_table =
     Frame [''Quarter'', ''Role'', ''Headcount'']
       [[(''Quarter'', Str ''SoS''), (''Role'', Str ''Dock''), (''Headcount'', Num 10)],
        [(''Quarter'', Str ''SoS''), (''Role'', Str ''GK''), (''Headcount'', Num 0)],
        [(''Quarter'', Str ''Q1''), (''Role'', Str ''Dock''), (''Headcount'', Num 12)],
        [(''Quarter'', Str ''Q1''), (''Role'', Str ''GK''), (''Headcount'', Num 5)]]"

section \<open>Properties of the delta analysis\<close>

lemma delta_entry_total: "\<exists>r. delta_entry E role d1 d2 key = Inr r"
  apply (auto simp: delta_entry_def Let_def split: option.splits sum.splits)
  subgoal for old new e
    by (cases old; cases "num_sub new old"; auto split: if_splits)
  done

lemma delta_entry_ok:
  assumes "delta_entry E role d1 d2 key = Inr (Some r)"
  shows "delta_ok r"
proof -
  from assms obtain old new where
    r: "coerce E d1 key = Some old" "coerce E d2 key = Some new"
    by (auto simp: delta_entry_def split: option.splits)
  show ?thesis
    using assms r
    by (cases old; cases new)
       (auto simp: delta_entry_def delta_ok_def Let_def split: if_splits sum.splits)
qed

lemma metric_loop_total: "\<exists>rs. metric_loop E role d1 d2 keys = Inr rs"
proof (induction keys)
  case Nil
  show ?case by simp
next
  case (Cons k ks)
  obtain r where "delta_entry E role d1 d2 k = Inr r"
    using delta_entry_total by blast
  with Cons show ?case by auto
qed

lemma metric_loop_ok:
  "metric_loop E role d1 d2 keys = Inr rs \<Longrightarrow> r \<in> set rs \<Longrightarrow> delta_ok r"
proof (induction keys arbitrary: rs)
  case Nil
  then show ?case by simp
next
  case (Cons k ks)
  then show ?case
    by (auto split: sum.splits option.splits dest: delta_entry_ok)
qed

lemma coerce_cong: "float_of_str E1 = float_of_str E2 \<Longrightarrow> coerce E1 d k = coerce E2 d k"
  by (simp add: coerce_def split: pyval.splits)

lemma delta_entry_cong:
  "float_of_str E1 = float_of_str E2 \<Longrightarrow>
     delta_entry E1 role d1 d2 k = delta_entry E2 role d1 d2 k"
  by (simp add: delta_entry_def coerce_cong [of E1 E2] split: option.splits)

lemma metric_loop_cong:
  "float_of_str E1 = float_of_str E2 \<Longrightarrow>
     metric_loop E1 role d1 d2 ks = metric_loop E2 role d1 d2 ks"
  by (induction ks) (simp_all add: delta_entry_cong [of E1 E2] split: sum.splits)

lemma rows_for_cong:
  "float_of_str E1 = float_of_str E2 \<Longrightarrow> rows_for E1 r1 r2 role = rows_for E2 r1 r2 role"
  by (simp add: rows_for_def metric_loop_cong [of E1 E2] split: option.splits)

lemma rows_for_ok: "r \<in> set (rows_for E r1 r2 role) \<Longrightarrow> delta_ok r"
  by (auto simp: rows_for_def split: option.splits sum.splits dest: metric_loop_ok [OF sym])

lemma role_loop_concat:
  assumes "set rs \<subseteq> fst ` set roles1 \<inter> fst ` set roles2"
  shows "role_loop E roles1 roles2 rs = Inr (concat (map (rows_for E roles1 roles2) rs))"
  using assms
proof (induction rs)
  case Nil
  show ?case by simp
next
  case (Cons role rest)
  from Cons.prems obtain d1 d2 where
    d: "map_of roles1 role = Some d1" "map_of roles2 role = Some d2"
    by (metis (no_types, lifting) IntE list.set_intros(1) map_of_eq_None_iff not_Some_eq subsetD)
  obtain ms where ms: "metric_loop E role d1 d2 (map fst d1) = Inr ms"
    using metric_loop_total by blast
  from Cons have "role_loop E roles1 roles2 rest = Inr (concat (map (rows_for E roles1 roles2) rest))"
    by simp
  moreover have "rows_for E roles1 roles2 role = ms"
    using d ms by (simp add: rows_for_def)
  ultimately show ?case
    using d ms by simp
qed

lemma common_roles_subset:
  assumes "set_order_ok E"
  shows "set (common_roles E roles1 roles2) \<subseteq> fst ` set roles1 \<inter> fst ` set roles2"
proof -
  have "set (set_order E xs) = set xs" for xs
    using assms unfolding set_order_ok_def by (metis set_mset_mset)
  then show ?thesis
    by (auto simp: common_roles_def)
qed

lemma role_loop_common:
  assumes "set_order_ok E"
  shows "role_loop E roles1 roles2 (common_roles E roles1 roles2)
           = Inr (concat (map (rows_for E roles1 roles2) (common_roles E roles1 roles2)))"
  using assms by (intro role_loop_concat common_roles_subset)

lemma mset_concat_map_perm:
  assumes "mset xs = mset ys"
  shows "mset (concat (map f xs)) = mset (concat (map f ys))"
proof -
  have "mset (concat (map f zs)) = sum_mset (image_mset (\<lambda>z. mset (f z)) (mset zs))" for zs
    by (induction zs) simp_all
  with assms show ?thesis by simp
qed

lemma set_order_ok_sample_id: "set_order_ok (sample_interp id)"
  by (simp add: set_order_ok_def sample_interp_def)

lemma set_order_ok_sample_rev: "set_order_ok (sample_interp rev)"
  by (simp add: set_order_ok_def sample_interp_def)

lemma sample_deltas_id:
  "compute_deltas_between (sample_interp id) sample_dataset ''SoS'' ''Q1'' =
     Inr (''Headcount'' @ [CHR 0x0A] @ ''Headcount'',
          [\<lparr>Role = Str ''Dock'', Metric = ''Headcount'', Old_Value = Float 10,
             New_Value = Float 12, Difference = Float 2, Percent_Change = Float 20\<rparr>,
           \<lparr>Role = Str ''GK'', Metric = ''Headcount'', Old_Value = Float 0,
             New_Value = Float 5, Difference = Float 5, Percent_Change = Int0\<rparr>])"
  by (simp add: compute_deltas_between_def sample_dataset_def sample_interp_def
      common_roles_def delta_entry_def coerce_def py_get_def summary_line_def)

lemma sample_deltas_rev:
  "compute_deltas_between (sample_interp rev) sample_dataset ''SoS'' ''Q1'' =
     Inr (''Headcount'' @ [CHR 0x0A] @ ''Headcount'',
          [\<lparr>Role = Str ''GK'', Metric = ''Headcount'', Old_Value = Float 0,
             New_Value = Float 5, Difference = Float 5, Percent_Change = Int0\<rparr>,
           \<lparr>Role = Str ''Dock'', Metric = ''Headcount'', Old_Value = Float 10,
             New_Value = Float 12, Difference = Float 2, Percent_Change = Float 20\<rparr>])"
  by (simp add: compute_deltas_between_def sample_dataset_def sample_interp_def
      common_roles_def delta_entry_def coerce_def py_get_def summary_line_def)

text \<open>
  Claim C5. Zero-division guard of the delta engine: whatever order the common roles are
  iterated in, \<open>compute_deltas_between\<close> never raises (the division is only reached
  with a non-zero divisor), and in every row of the table it returns, Difference is
  new - old and Percent Change is (new - old) / old * 100 when old is not 0 and exactly 0
  when old is 0.
\<close>

theorem delta_rows_guarded:
  assumes "set_order_ok E"
  shows "\<exists>summary rows. compute_deltas_between E sd q1 q2 = Inr (summary, rows)
           \<and> (\<forall>r \<in> set rows. delta_ok r)"
proof (cases "map_of sd q1")
  case None
  then show ?thesis by (simp add: compute_deltas_between_def)
next
  case (Some roles1)
  note s1 = this
  show ?thesis
  proof (cases "map_of sd q2")
    case None
    with s1 show ?thesis by (simp add: compute_deltas_between_def)
  next
    case (Some roles2)
    with s1 role_loop_common [OF assms, of roles1 roles2] show ?thesis
      by (auto simp: compute_deltas_between_def dest: rows_for_ok)
  qed
qed

text \<open>
  At the sample dataset (GK has Headcount 0 at SoS and 5 at Q1) the theorem applies, and
  the row for the old value 0 and the new value 5 has Percent Change 0.
\<close>

theorem delta_rows_guarded_witness:
  "\<exists>summary rows.
     compute_deltas_between (sample_interp id) sample_dataset ''SoS'' ''Q1'' = Inr (summary, rows)
     \<and> (\<forall>r \<in> set rows. delta_ok r)
     \<and> \<lparr>Role = Str ''GK'', Metric = ''Headcount'', Old_Value = Float 0,
          New_Value = Float 5, Difference = Float 5, Percent_Change = Int0\<rparr> \<in> set rows"
  using delta_rows_guarded [OF set_order_ok_sample_id, of sample_dataset "''SoS''" "''Q1''"]
  by (simp add: sample_deltas_id)

text \<open>
  Claim C6. When either quarter has no entry in the dataset, \<open>compute_deltas_between\<close>
  returns the fixed message "One or both quarters are not available." together with the
  empty table; it returns normally, no exception is raised.
\<close>

theorem compute_deltas_missing_quarter:
  assumes "q1 \<notin> fst ` set sd \<or> q2 \<notin> fst ` set sd"
  shows "compute_deltas_between E sd q1 q2
           = Inr (''One or both quarters are not available.'', [])"
proof -
  from assms have "map_of sd q1 = None \<or> map_of sd q2 = None"
    by (auto simp: map_of_eq_None_iff)
  then show ?thesis
    by (auto simp: compute_deltas_between_def split: option.splits)
qed

text \<open>The sample dataset has no entry for Q2.\<close>

theorem compute_deltas_missing_quarter_witness:
  "''Q2'' \<notin> fst ` set sample_dataset \<and>
   compute_deltas_between (sample_interp id) sample_dataset ''SoS'' ''Q2''
     = Inr (''One or both quarters are not available.'', [])"
proof -
  have h: "''Q2'' \<notin> fst ` set sample_dataset"
    by (simp add: sample_dataset_def)
  from h compute_deltas_missing_quarter [of "''SoS''" sample_dataset "''Q2''" "sample_interp id"]
  show ?thesis
    by simp
qed

text \<open>
  Claim C9, as stated: the summary and the table do not depend on anything but the
  dataset and the two quarters. The roles are visited in the iteration order of a
  \<^verbatim>\<open>set\<close>, which the code does not fix: for the sample dataset, two iteration orders
  of the same set of common roles give tables that differ in their row order.
\<close>

theorem delta_row_order_counterexample:
  "compute_deltas_between (sample_interp id) sample_dataset ''SoS'' ''Q1''
     \<noteq> compute_deltas_between (sample_interp rev) sample_dataset ''SoS'' ''Q1''"
  by (simp add: sample_deltas_id sample_deltas_rev)

text \<open>
  Claim C9, amended. The delta engine is deterministic up to the order in which the
  common roles are visited: whatever order the set of common roles is iterated in, the
  call returns normally and the table holds the same rows with the same multiplicities.
\<close>

theorem delta_rows_order_independent:
  assumes "set_order_ok E1" and "set_order_ok E2" and "float_of_str E1 = float_of_str E2"
  shows "\<exists>s1 rows1 s2 rows2.
           compute_deltas_between E1 sd q1 q2 = Inr (s1, rows1) \<and>
           compute_deltas_between E2 sd q1 q2 = Inr (s2, rows2) \<and>
           mset rows1 = mset rows2"
proof (cases "map_of sd q1")
  case None
  then show ?thesis by (simp add: compute_deltas_between_def)
next
  case (Some roles1)
  note s1 = this
  show ?thesis
  proof (cases "map_of sd q2")
    case None
    with s1 show ?thesis by (simp add: compute_deltas_between_def)
  next
    case (Some roles2)
    have "mset (common_roles E1 roles1 roles2) = mset (common_roles E2 roles1 roles2)"
      using assms(1,2) by (simp add: common_roles_def set_order_ok_def)
    then have "mset (concat (map (rows_for E1 roles1 roles2) (common_roles E1 roles1 roles2)))
             = mset (concat (map (rows_for E1 roles1 roles2) (common_roles E2 roles1 roles2)))"
      by (rule mset_concat_map_perm)
    moreover have "rows_for E1 roles1 roles2 = rows_for E2 roles1 roles2"
      using assms(3) by (auto simp: fun_eq_iff intro: rows_for_cong)
    ultimately show ?thesis
      using s1 Some role_loop_common [OF assms(1), of roles1 roles2]
        role_loop_common [OF assms(2), of roles1 roles2]
      by (simp add: compute_deltas_between_def)
  qed
qed

theorem delta_rows_order_independent_witness:
  "set_order_ok (sample_interp id) \<and> set_order_ok (sample_interp rev) \<and>
   float_of_str (sample_interp id) = float_of_str (sample_interp rev) \<and>
   (\<exists>s1 rows1 s2 rows2.
      compute_deltas_between (sample_interp id) sample_dataset ''SoS'' ''Q1'' = Inr (s1, rows1) \<and>
      compute_deltas_between (sample_interp rev) sample_dataset ''SoS'' ''Q1'' = Inr (s2, rows2) \<and>
      rows1 \<noteq> rows2 \<and> mset rows1 = mset rows2)"
proof -
  have f: "float_of_str (sample_interp id) = float_of_str (sample_interp rev)"
    by (simp add: sample_interp_def)
  from delta_rows_order_independent [OF set_order_ok_sample_id set_order_ok_sample_rev f,
      of sample_dataset "''SoS''" "''Q1''"]
  show ?thesis
    using set_order_ok_sample_id set_order_ok_sample_rev f
    by (simp add: sample_deltas_id sample_deltas_rev)
qed

section \<open>Properties of sheets and of the EoS update\<close>

lemma cell_dense:
  "cell (map (\<lambda>c. (c, f c)) cs) c = (if c \<in> set cs then f c else NaN)"
  by (simp add: cell_def map_of_map_restrict restrict_map_def)

lemma excel_cell_idem: "excel_cell (excel_cell v) = excel_cell v"
  by (cases v) auto

lemma trim_trailing_idem: "trim_trailing (trim_trailing rs) = trim_trailing rs"
  by (simp add: trim_trailing_def dropWhile_idem)

lemma set_trim_trailing: "set (trim_trailing rs) \<subseteq> set rs"
  by (auto simp: trim_trailing_def dest: set_dropWhileD)

lemma cols_as_sheet: "cols (as_sheet df) = cols df"
  by (simp add: as_sheet_def)

text \<open>Reading back what was read back changes nothing.\<close>

lemma as_sheet_idem: "as_sheet (as_sheet df) = as_sheet df"
proof (cases "cols df = []")
  case True
  then show ?thesis by (simp add: as_sheet_def)
next
  case False
  let ?d = "\<lambda>r. map (\<lambda>c. (c, excel_cell (cell r c))) (cols df)"
  have d: "?d (?d r) = ?d r" for r
    by (simp add: cell_dense excel_cell_idem)
  have "map ?d (trim_trailing (map ?d (recs df))) = trim_trailing (map ?d (recs df))"
  proof (rule map_idI)
    fix x assume "x \<in> set (trim_trailing (map ?d (recs df)))"
    then have "x \<in> set (map ?d (recs df))"
      using set_trim_trailing by blast
    then show "?d x = x" using d by auto
  qed
  with False show ?thesis
    by (simp add: as_sheet_def trim_trailing_idem)
qed

lemma cols_drop_column: "cols (drop_column c df) = removeAll c (cols df)"
  by (simp add: drop_column_def)

lemma map_of_to_excel: "map_of (to_excel wb name df) name = Some (as_sheet df)"
  by (simp add: to_excel_def update_conv')

lemma map_of_to_excel_other: "n \<noteq> name \<Longrightarrow> map_of (to_excel wb name df) n = map_of wb n"
  by (simp add: to_excel_def update_conv')

lemma to_excel_same: "map_of wb name = Some (as_sheet df) \<Longrightarrow> to_excel wb name df = wb"
  by (simp add: to_excel_def update_triv)

lemma read_sheets_none:
  assumes "\<forall>s \<in> set names. s \<notin> fst ` set wb"
  shows "read_sheets wb names = []"
  using assms
  by (induction names) (auto simp: read_excel_def map_of_eq_None_iff split: option.splits)

lemma sample_eos_rewrite:
  "aggregate_data sample_eos_book ''EoS'' = Inr sample_eos_rewritten"
  by (simp add: aggregate_data_def sample_eos_book_def sample_eos_rewritten_def read_excel_def
      to_excel_def as_sheet_def trim_trailing_def blank_row_def cell_def drop_column_def
      AList.delete_eq)

text \<open>
  Claim C8. \<open>aggregate_data\<close> for the quarter EoS is idempotent: when a run has
  rewritten the EoS sheet, a second run in a row returns the very same workbook, so the
  EoS sheet has the same contents after both; that sheet has no Quarter column. (Without
  an EoS sheet the call raises and writes nothing.)
\<close>

theorem aggregate_eos_idempotent:
  assumes "aggregate_data wb ''EoS'' = Inr wb1"
  shows "aggregate_data wb1 ''EoS'' = Inr wb1 \<and>
         (\<exists>eos. map_of wb1 ''EoS'' = Some eos \<and> ''Quarter'' \<notin> set (cols eos))"
proof -
  from assms obtain sh where sh: "map_of wb ''EoS'' = Some sh"
    by (auto simp: aggregate_data_def read_excel_def split: option.splits)
  define df where "df = as_sheet sh"
  define out where "out = (if ''Quarter'' \<in> set (cols df) then drop_column ''Quarter'' df else df)"
  from assms sh have wb1: "wb1 = to_excel wb ''EoS'' out"
    by (auto simp: aggregate_data_def read_excel_def df_def out_def)
  have nq: "''Quarter'' \<notin> set (cols out)"
    by (simp add: out_def cols_drop_column)
  have eos: "map_of wb1 ''EoS'' = Some (as_sheet out)"
    by (simp add: wb1 map_of_to_excel)
  have "read_excel wb1 ''EoS'' = Inr (as_sheet out)"
    by (simp add: read_excel_def eos as_sheet_idem)
  moreover have "to_excel wb1 ''EoS'' (as_sheet out) = wb1"
    by (rule to_excel_same) (simp add: eos as_sheet_idem)
  ultimately have "aggregate_data wb1 ''EoS'' = Inr wb1"
    using nq by (simp add: aggregate_data_def cols_as_sheet)
  with eos nq show ?thesis
    by (simp add: cols_as_sheet)
qed

text \<open>
  On the sample workbook the first run drops the Quarter column, and the second run
  leaves the workbook as the first run wrote it.
\<close>

theorem aggregate_eos_idempotent_witness:
  "aggregate_data sample_eos_book ''EoS'' = Inr sample_eos_rewritten \<and>
   aggregate_data sample_eos_rewritten ''EoS'' = Inr sample_eos_rewritten \<and>
   (\<exists>eos. map_of sample_eos_rewritten ''EoS'' = Some eos \<and> ''Quarter'' \<notin> set (cols eos))"
  using aggregate_eos_idempotent [OF sample_eos_rewrite] sample_eos_rewrite
  by simp

text \<open>
  Claim C10. When \<open>aggregate_data\<close> runs for a quarter other than EoS and the workbook
  has none of the sheets SoS, Q1, Q2, Q3, it returns normally with the workbook it was
  given: nothing is written and the EoS sheet is as it was.
\<close>

theorem aggregate_without_quarter_sheets:
  assumes "current_quarter \<noteq> ''EoS''"
    and "''SoS'' \<notin> fst ` set wb" and "''Q1'' \<notin> fst ` set wb"
    and "''Q2'' \<notin> fst ` set wb" and "''Q3'' \<notin> fst ` set wb"
  shows "aggregate_data wb current_quarter = Inr wb"
proof -
  have "read_sheets wb [''SoS'', ''Q1'', ''Q2'', ''Q3''] = []"
    using assms(2-5) by (intro read_sheets_none) simp
  with assms(1) show ?thesis
    by (simp add: aggregate_data_def)
qed

theorem aggregate_without_quarter_sheets_witness:
  "''Q1'' \<noteq> ''EoS'' \<and>
   ''SoS'' \<notin> fst ` set sample_eos_book \<and> ''Q1'' \<notin> fst ` set sample_eos_book \<and>
   ''Q2'' \<notin> fst ` set sample_eos_book \<and> ''Q3'' \<notin> fst ` set sample_eos_book \<and>
   aggregate_data sample_eos_book ''Q1'' = Inr sample_eos_book"
proof -
  have h: "''SoS'' \<notin> fst ` set sample_eos_book" "''Q1'' \<notin> fst ` set sample_eos_book"
    "''Q2'' \<notin> fst ` set sample_eos_book" "''Q3'' \<notin> fst ` set sample_eos_book"
    by (simp_all add: sample_eos_book_def)
  have q: "''Q1'' \<noteq> ''EoS''" by simp
  from aggregate_without_quarter_sheets [OF q h] h show ?thesis
    by simp
qed

section \<open>Properties of the import\<close>

lemma map_of_update_fold:
  "map_of (foldl (\<lambda>d row. AList.update (k row) (v row) d) d0 rows) role =
     (case filter (\<lambda>r. k r = role) rows of
        [] \<Rightarrow> map_of d0 role
      | r # rs \<Rightarrow> Some (v (last (r # rs))))"
proof (induction rows rule: rev_induct)
  case Nil
  show ?case by simp
next
  case (snoc x xs)
  then show ?case
    by (auto simp: update_conv' split: list.splits)
qed

lemma map_of_quarter_dict:
  "map_of (quarter_dict df) role =
     (case rows_of_role df role of [] \<Rightarrow> None | r # rs \<Rightarrow> Some (to_dict df (last (r # rs))))"
  unfolding quarter_dict_def rows_of_role_def
  by (simp add: map_of_update_fold [where k = "\<lambda>row. cell row ''Role''" and v = "to_dict df"]
      split: list.splits)

lemma map_of_import_quarters:
  "map_of (import_quarters wb qs sd) q =
     (case read_excel wb q of
        Inl e \<Rightarrow> map_of sd q
      | Inr df \<Rightarrow> if q \<in> set qs \<and> importable df then Some (quarter_dict df) else map_of sd q)"
proof (induction qs arbitrary: sd)
  case Nil
  show ?case by (simp split: sum.splits)
next
  case (Cons a qs)
  show ?case
    by (auto simp: Cons update_conv' split: sum.splits)
qed

lemma import_files_selected:
  assumes "card (set (map dirname (f # fs))) = 1"
  shows "import_files (f # fs) st =
           st\<lparr>shift_data := import_quarters (content (latest_of f fs)) QUARTERS (shift_data st),
              json_file := Some (import_quarters (content (latest_of f fs)) QUARTERS (shift_data st))\<rparr>"
  using assms by (simp add: import_files_def save_data_to_json_def Let_def)

lemma sample_import:
  "import_files [sample_file] sample_state =
     \<lparr>shift_data = sample_imported, json_file = Some sample_imported, book = None\<rparr>"
  by (simp add: import_files_def save_data_to_json_def sample_file_def sample_state_def
      sample_imported_def QUARTERS_def sample_import_book_def sample_dataset_def read_excel_def
      as_sheet_def trim_trailing_def blank_row_def cell_def importable_def quarter_dict_def
      to_dict_def Let_def)

text \<open>
  Claim C1, as stated: roles already stored under a quarter and absent from the imported
  sheet remain. The sample dataset stores Dock and GK under Q1; the imported Q1 sheet has
  a row for Dock only; after the import GK is no longer stored under Q1.
\<close>

theorem import_role_granularity_counterexample:
  "keeps_roles sample_dataset (shift_data sample_state) \<and>
   \<not> keeps_roles sample_dataset (shift_data (import_files [sample_file] sample_state))"
  by (simp add: sample_import) (simp add: keeps_roles_def sample_dataset_def sample_state_def
      sample_imported_def)

text \<open>
  Claim C1, amended. The import merges at sheet granularity. When all selected files are
  in one folder, then for every quarter of \<open>QUARTERS\<close> whose sheet in the latest file has
  a row and a Role column, the entry of the dataset for that quarter is replaced by a
  dictionary built from that sheet alone: each Role value of the sheet is mapped to the
  record of its last row, and no other role is stored under that quarter. Every other
  entry of the dataset is left as it was.
\<close>

theorem import_replaces_quarter_entry:
  assumes "card (set (map dirname (f # fs))) = 1"
  shows "map_of (shift_data (import_files (f # fs) st)) q =
           (case read_excel (content (latest_of f fs)) q of
              Inl e \<Rightarrow> map_of (shift_data st) q
            | Inr df \<Rightarrow>
                if q \<in> set QUARTERS \<and> importable df then Some (quarter_dict df)
                else map_of (shift_data st) q)
         \<and> map_of (quarter_dict sheet) role =
             (case rows_of_role sheet role of
                [] \<Rightarrow> None
              | r # rs \<Rightarrow> Some (to_dict sheet (last (r # rs))))"
  by (simp add: import_files_selected [OF assms] map_of_import_quarters map_of_quarter_dict)

text \<open>
  For the sample file: the entry for Q1 is the dictionary of the Q1 sheet, in which GK
  is not stored, and the entry for SoS (no such sheet in the file) is the old one.
\<close>

theorem import_replaces_quarter_entry_witness:
  "card (set (map dirname [sample_file])) = 1 \<and>
   map_of (shift_data (import_files [sample_file] sample_state)) ''Q1''
     = Some (quarter_dict (Frame [''Role'', ''Headcount'']
                             [[(''Role'', Str ''Dock''), (''Headcount'', Num 7)]])) \<and>
   map_of (quarter_dict (Frame [''Role'', ''Headcount'']
                           [[(''Role'', Str ''Dock''), (''Headcount'', Num 7)]])) (Str ''GK'')
     = None \<and>
   map_of (shift_data (import_files [sample_file] sample_state)) ''SoS''
     = map_of (shift_data sample_state) ''SoS''"
proof -
  have c: "card (set (map dirname [sample_file])) = 1"
    by simp
  have r1: "read_excel (content sample_file) ''Q1''
      = Inr (Frame [''Role'', ''Headcount''] [[(''Role'', Str ''Dock''), (''Headcount'', Num 7)]])"
    by (simp add: sample_file_def sample_import_book_def read_excel_def as_sheet_def
        trim_trailing_def blank_row_def cell_def)
  have r2: "read_excel (content sample_file) ''SoS'' = Inl ValueError"
    by (simp add: sample_file_def sample_import_book_def read_excel_def)
  have i: "importable (Frame [''Role'', ''Headcount'']
      [[(''Role'', Str ''Dock''), (''Headcount'', Num 7)]])"
    by (simp add: importable_def)
  have q: "''Q1'' \<in> set QUARTERS"
    by (simp add: QUARTERS_def)
  from import_replaces_quarter_entry [OF c, where st = sample_state and q = "''Q1''"
      and sheet = "Frame [''Role'', ''Headcount'']
                     [[(''Role'', Str ''Dock''), (''Headcount'', Num 7)]]"
      and role = "Str ''GK''"]
    import_replaces_quarter_entry [OF c, where st = sample_state and q = "''SoS''"
      and sheet = "Frame [] []" and role = NaN]
  show ?thesis
    using c by (simp add: r1 r2 i q rows_of_role_def cell_def)
qed

section \<open>Properties of the change summary\<close>

lemma set_unique_first [simp]: "set (unique_first xs) = set xs"
  by (simp add: unique_first_def)

lemma cols_DataFrame: "set (cols (DataFrame rs)) = (\<Union>r \<in> set rs. fst ` set r)"
  by (auto simp: DataFrame_def)

lemma keys_update_fold:
  "fst ` set d \<subseteq> fst ` set (foldl (\<lambda>row kv. AList.update (fst kv) (snd kv) row) d data)"
proof (induction data arbitrary: d)
  case Nil
  show ?case by simp
next
  case (Cons kv data)
  have "fst ` set d \<subseteq> fst ` set (AList.update (fst kv) (snd kv) d)"
    by (auto simp: dom_update)
  with Cons [of "AList.update (fst kv) (snd kv) d"] show ?case
    by auto
qed

lemma quarter_in_summary_row: "''Quarter'' \<in> fst ` set (summary_row q data)"
  using keys_update_fold [of "[(''Quarter'', Str q)]" data]
  by (auto simp: summary_row_def)

lemma summary_rows_have_quarter:
  "r \<in> set (summary_rows sd) \<Longrightarrow> ''Quarter'' \<in> fst ` set r"
  by (auto simp: summary_rows_def quarter_in_summary_row)

lemma cell_update: "cell (AList.update k v r) c = (if c = k then v else cell r c)"
  by (simp add: cell_def update_conv')

lemma cell_delete: "cell (AList.delete k r) c = (if c = k then NaN else cell r c)"
  by (simp add: cell_def delete_conv')

lemma order_key_rank_le:
  "order_key (Num (of_nat m)) \<le> order_key (Num (of_nat n)) \<longleftrightarrow> m \<le> n"
  by (auto simp: less_eq_prod_def less_prod_def)

text \<open>
  The frame that is written: sorted by rank and role, without the helper column, and
  holding exactly the emitted rows.
\<close>

lemma shift_changes_table_sorted:
  assumes "shift_changes_table sd = Inr df"
  shows "sorted (map summary_key (recs df)) \<and> ''QuarterOrder'' \<notin> set (cols df) \<and>
         mset (recs df) = mset (map (AList.delete ''QuarterOrder'') (summary_rows sd))"
proof (cases "''Quarter'' \<in> set (cols (DataFrame (summary_rows sd)))")
  case False
  then have "summary_rows sd = []"
    using summary_rows_have_quarter [of _ sd]
    by (cases "summary_rows sd") (auto simp: cols_DataFrame)
  with assms False show ?thesis
    by (auto simp: shift_changes_table_def DataFrame_def unique_first_def)
next
  case True
  let ?f = "\<lambda>r. Num (of_nat (quarter_rank (cell r ''Quarter'')))"
  let ?a = "assign_column ''QuarterOrder'' ?f (DataFrame (summary_rows sd))"
  let ?k = "\<lambda>r. (order_key (cell r ''QuarterOrder''), order_key (cell r ''Role''))"
  from assms True obtain sdf where
    s: "sort_values ?a = Inr sdf" and df: "df = drop_column ''QuarterOrder'' sdf"
    by (auto simp: shift_changes_table_def Let_def split: sum.splits)
  from s have sdf: "sdf = Frame (cols ?a) (sort_key ?k (recs ?a))"
    by (auto simp: sort_values_def split: if_splits)
  have ra: "recs ?a = map (\<lambda>r. AList.update ''QuarterOrder'' (?f r) r) (summary_rows sd)"
    by (simp add: assign_column_def DataFrame_def)
  have key: "summary_key (AList.delete ''QuarterOrder'' r)
               \<le> summary_key (AList.delete ''QuarterOrder'' r')"
    if "r \<in> set (recs ?a)" "r' \<in> set (recs ?a)" "?k r \<le> ?k r'" for r r'
  proof -
    from that(1,2) obtain x y where
      x: "r = AList.update ''QuarterOrder'' (?f x) x" and
      y: "r' = AList.update ''QuarterOrder'' (?f y) y"
      by (auto simp: ra)
    from that(3) show ?thesis
      unfolding x y
      by (simp add: summary_key_def cell_update cell_delete order_key_rank_le
          less_eq_prod_def less_prod_def del: order_key.simps)
         (auto simp: order_key_rank_le less_eq_prod_def less_prod_def)
  qed
  have "sorted (map ?k (sort_key ?k (recs ?a)))"
    by simp
  then have "sorted_wrt (\<lambda>r r'. ?k r \<le> ?k r') (sort_key ?k (recs ?a))"
    by (simp add: sorted_map)
  then have "sorted_wrt (\<lambda>r r'. summary_key (AList.delete ''QuarterOrder'' r)
                 \<le> summary_key (AList.delete ''QuarterOrder'' r')) (sort_key ?k (recs ?a))"
    by (rule sorted_wrt_mono_rel [rotated]) (auto intro: key)
  then have 1: "sorted (map summary_key (recs df))"
    by (simp add: df sdf drop_column_def sorted_map sorted_wrt_map)
  have 2: "''QuarterOrder'' \<notin> set (cols df)"
    by (simp add: df cols_drop_column)
  have "mset (recs df) = image_mset (AList.delete ''QuarterOrder'') (mset (recs ?a))"
    by (simp add: df sdf drop_column_def)
  also have "\<dots> = mset (map (AList.delete ''QuarterOrder'') (summary_rows sd))"
    by (simp add: ra delete_update_same multiset.map_comp comp_def)
  finally show ?thesis using 1 2 by simp
qed

lemma sample_log_table_eq: "shift_changes_table sample_log_dataset = Inr sample_log_table"
  by code_simp

text \<open>
  Claim C7. When \<open>update_shift_changes_summary\<close> writes the sheet "Shift Changes", the
  table it writes is sorted by the rank of the Quarter value (SoS 1, Q1 2, Q2 3, Q3 4,
  EoS 5, any other value 99) and then by the Role value, strings in lexicographic order;
  the helper column QuarterOrder is not a column of that table; and the table holds
  exactly the rows emitted for the dataset.
\<close>

theorem shift_changes_sorted:
  assumes "update_shift_changes_summary sd wb = Inr wb'"
  shows "\<exists>df. shift_changes_table sd = Inr df \<and> wb' = to_excel wb ''Shift Changes'' df \<and>
           sorted (map summary_key (recs df)) \<and> ''QuarterOrder'' \<notin> set (cols df) \<and>
           mset (recs df) = mset (map (AList.delete ''QuarterOrder'') (summary_rows sd))"
proof -
  from assms obtain df where
    df: "shift_changes_table sd = Inr df" and "wb' = to_excel wb ''Shift Changes'' df"
    by (auto simp: update_shift_changes_summary_def split: sum.splits)
  with shift_changes_table_sorted [OF df] show ?thesis
    by simp
qed

text \<open>
  For the sample dataset the table has the row of SoS, then the rows of Q1 with Dock
  before GK, then the row of the quarter without a rank.
\<close>

theorem shift_changes_sorted_witness:
  "update_shift_changes_summary sample_log_dataset create_new_workbook
     = Inr (to_excel create_new_workbook ''Shift Changes'' sample_log_table) \<and>
   sorted (map summary_key (recs sample_log_table)) \<and>
   map summary_key (recs sample_log_table)
     = [(1, 1, 0, ''Dock''), (2, 1, 0, ''Dock''), (2, 1, 0, ''GK''), (99, 1, 0, ''Dock'')] \<and>
   ''QuarterOrder'' \<notin> set (cols sample_log_table)"
proof -
  have u: "update_shift_changes_summary sample_log_dataset create_new_workbook
      = Inr (to_excel create_new_workbook ''Shift Changes'' sample_log_table)"
    by (simp add: update_shift_changes_summary_def sample_log_table_eq)
  have k: "map summary_key (recs sample_log_table)
      = [(1, 1, 0, ''Dock''), (2, 1, 0, ''Dock''), (2, 1, 0, ''GK''), (99, 1, 0, ''Dock'')]"
    by (simp add: sample_log_table_def summary_key_def cell_def quarter_rank_def
        quarter_order_def)
  from shift_changes_sorted [OF u] u k show ?thesis
    by (auto simp: sample_log_table_eq)
qed

section \<open>Properties of the aggregation into the EoS sheet\<close>






lemma cols_concat_frames: "set (cols (concat_frames sheets)) = (\<Union>df \<in> set sheets. set (cols df))"
  by (simp add: concat_frames_def)








lemma groupby_agg_rows:
  assumes "''Role'' \<in> set (cols df)"
  shows "groupby_agg df = Inr (Frame (''Role'' # removeAll ''Role'' (cols df))
                                  (map (group_row df) (group_keys df)))"
  using assms by (simp add: groupby_agg_def Let_def group_row_def rows_of_role_def)












section \<open>Properties of a submission\<close>

lemma collect_data_columns:
  "''Quarter'' \<in> set (cols (DataFrame (collect_data F)))"
  "''Role'' \<in> set (cols (DataFrame (collect_data F)))"
  by (simp_all add: cols_DataFrame collect_data_def RSP_FLOORS_def Let_def)

lemma read_sheets_member:
  assumes "name \<in> set names" and "map_of wb name = Some sh"
  shows "as_sheet sh \<in> set (read_sheets wb names)"
  using assms
  by (induction names) (auto simp: read_excel_def split: option.splits)

lemma aggregate_quarter_column:
  assumes "q \<in> set [''SoS'', ''Q1'', ''Q2'', ''Q3'']"
    and "map_of wb q = Some sh"
    and "''Role'' \<in> set (cols sh)" and "''Quarter'' \<in> set (cols sh)"
  shows "\<exists>wb' eos. aggregate_data wb q = Inr wb' \<and> map_of wb' ''EoS'' = Some eos \<and>
           ''Quarter'' \<in> set (cols eos) \<and> (\<forall>n. n \<noteq> ''EoS'' \<longrightarrow> map_of wb' n = map_of wb n)"
proof -
  let ?sheets = "read_sheets wb [''SoS'', ''Q1'', ''Q2'', ''Q3'']"
  let ?df = "concat_frames ?sheets"
  have mem: "as_sheet sh \<in> set ?sheets"
    using assms(1,2) by (rule read_sheets_member)
  then have ne: "?sheets \<noteq> []" by auto
  from mem assms(3,4) have c: "''Role'' \<in> set (cols ?df)" "''Quarter'' \<in> set (cols ?df)"
    by (auto simp: cols_concat_frames cols_as_sheet simp del: read_sheets.simps
        intro!: bexI [of _ "as_sheet sh"])
  from assms(1) have q: "q \<noteq> ''EoS''" by auto
  let ?out = "Frame (''Role'' # removeAll ''Role'' (cols ?df)) (map (group_row ?df) (group_keys ?df))"
  have "aggregate_data wb q = Inr (to_excel wb ''EoS'' ?out)"
    using q ne groupby_agg_rows [OF c(1)] unfolding aggregate_data_def
    by (simp add: Let_def)
  moreover have "''Quarter'' \<in> set (cols (as_sheet ?out))"
    using c(2) by (simp add: cols_as_sheet)
  ultimately show ?thesis
    by (auto simp: map_of_to_excel map_of_to_excel_other)
qed

lemma submit_quarter:
  assumes "selected_quarter F \<in> set [''SoS'', ''Q1'', ''Q2'', ''Q3'']"
    and "shift_changes_table (shift_data st) = Inr t"
  shows "snd (submit_data F st) = None"
    and "sheet_has_column (fst (submit_data F st)) (selected_quarter F) ''Quarter''"
    and "sheet_has_column (fst (submit_data F st)) ''EoS'' ''Quarter''"
proof -
  let ?q = "selected_quarter F"
  let ?wb0 = "case book st of None \<Rightarrow> create_new_workbook | Some wb \<Rightarrow> wb"
  let ?wb1 = "save_quarter_to_excel ?q (collect_data F) ?wb0"
  from assms(1) have q: "?q \<noteq> ''EoS''" "?q \<noteq> ''Shift Changes''" by auto
  have w1: "map_of ?wb1 ?q = Some (as_sheet (DataFrame (collect_data F)))"
    using q by (simp add: save_quarter_to_excel_def Let_def map_of_to_excel)
  have cs: "''Role'' \<in> set (cols (as_sheet (DataFrame (collect_data F))))"
    "''Quarter'' \<in> set (cols (as_sheet (DataFrame (collect_data F))))"
    by (simp_all add: cols_as_sheet collect_data_columns)
  from aggregate_quarter_column [OF assms(1) w1 cs] obtain wb2 eos where
    a: "aggregate_data ?wb1 ?q = Inr wb2" and e: "map_of wb2 ''EoS'' = Some eos"
    and eq: "''Quarter'' \<in> set (cols eos)"
    and other: "\<And>n. n \<noteq> ''EoS'' \<Longrightarrow> map_of wb2 n = map_of ?wb1 n"
    by blast
  have s: "submit_data F st =
      (load_data_from_json (st\<lparr>book := Some (to_excel wb2 ''Shift Changes'' t)\<rparr>), None)"
    using a assms(2) by (simp add: submit_data_def update_shift_changes_summary_def Let_def)
  have b: "book (fst (submit_data F st)) = Some (to_excel wb2 ''Shift Changes'' t)"
    by (simp add: s load_data_from_json_def split: option.splits)
  show "snd (submit_data F st) = None"
    by (simp add: s)
  show "sheet_has_column (fst (submit_data F st)) ?q ''Quarter''"
    using q w1 cs(2) other [OF q(1)]
    by (simp add: sheet_has_column_def b map_of_to_excel_other)
  show "sheet_has_column (fst (submit_data F st)) ''EoS'' ''Quarter''"
    using e eq by (simp add: sheet_has_column_def b map_of_to_excel_other)
qed

lemma submit_keeps_json_file: "json_file (fst (submit_data F st)) = json_file st"
  by (simp add: submit_data_def load_data_from_json_def Let_def split: sum.splits option.splits)

lemma submit_reloads:
  "snd (submit_data F st) = None \<Longrightarrow> json_file st = Some d \<Longrightarrow>
     shift_data (fst (submit_data F st)) = d"
  by (auto simp: submit_data_def load_data_from_json_def Let_def split: sum.splits option.splits)

lemma sample_table: "shift_changes_table sample_dataset = Inr sample_summary_table"
  by code_simp

lemma sample_submitted: "submitted_values sample_form ''Dock'' ''Headcount'' = [Num 5]"
  by code_simp

lemma sample_stored:
  "stored_value sample_dataset ''Q1'' (Str ''Dock'') ''Headcount'' = Some (Num 12)"
  by code_simp

lemma sample_form_quarter: "selected_quarter sample_form \<in> set [''SoS'', ''Q1'', ''Q2'', ''Q3'']"
  by (simp add: sample_form_def)

lemma sample_state_table: "shift_changes_table (shift_data sample_state) = Inr sample_summary_table"
  by (simp add: sample_state_def sample_table)

text \<open>
  Claim C3, at a failing input. The sample form is submitted for Q1 on the sample state,
  which has no workbook yet. The submission succeeds, and afterwards the Q1 sheet has a
  Quarter column, and so has the EoS sheet that the aggregation wrote: the quarter sheets
  are written with the Quarter key that \<open>collect_data\<close> puts into every record, which
  \<open>save_quarter_to_excel\<close> removes for EoS only.
\<close>

theorem quarter_column_in_quarter_and_eos_sheet:
  "snd (submit_data sample_form sample_state) = None \<and>
   sheet_has_column (fst (submit_data sample_form sample_state)) ''Q1'' ''Quarter'' \<and>
   sheet_has_column (fst (submit_data sample_form sample_state)) ''EoS'' ''Quarter''"
  using submit_quarter [OF sample_form_quarter sample_state_table]
  by (simp add: sample_form_def)

text \<open>
  Claim C4, at a failing input. The same submission succeeds, and afterwards the JSON
  file holds what it held before and the dataset in memory is that old content: the
  submitted Dock headcount for Q1 is 5, the stored one is still 12. \<open>submit_data\<close>
  never calls \<open>save_data_to_json\<close>; it only reloads the file.
\<close>

theorem submission_leaves_store_unwritten:
  "snd (submit_data sample_form sample_state) = None \<and>
   json_file (fst (submit_data sample_form sample_state)) = Some sample_dataset \<and>
   shift_data (fst (submit_data sample_form sample_state)) = sample_dataset \<and>
   submitted_values sample_form ''Dock'' ''Headcount'' = [Num 5] \<and>
   stored_value sample_dataset ''Q1'' (Str ''Dock'') ''Headcount'' = Some (Num 12)"
proof -
  have j: "json_file sample_state = Some sample_dataset"
    by (simp add: sample_state_def)
  have ok: "snd (submit_data sample_form sample_state) = None"
    by (rule submit_quarter(1) [OF sample_form_quarter sample_state_table])
  from ok j submit_reloads [OF ok j] submit_keeps_json_file [of sample_form sample_state]
  show ?thesis
    by (simp add: sample_submitted sample_stored)
qed

end
